theory Spec2Isabelle
  imports Main "HOL-Library.Word"
begin

section \<open>Enumerations and constants\<close>

text \<open>
  The derivation levels of the BIP44 library, the change variants and the data types of
  the wallet dictionary. \<open>HdWalletBipChanges\<close> selects the conventional change branch
  (0 for the external chain, 1 for the internal one).
\<close>

datatype Bip44Levels = MASTER | PURPOSE | COIN | ACCOUNT | CHANGE | ADDRESS_INDEX

datatype HdWalletBipChanges = CHAIN_EXT | CHAIN_INT

fun int_of_changes :: "HdWalletBipChanges \<Rightarrow> int" where
  "int_of_changes CHAIN_EXT = 0"
| "int_of_changes CHAIN_INT = 1"

datatype HdWalletBipDataTypes =
    WALLET_NAME | COIN_NAME | SPEC_NAME | MNEMONIC | PASSPHRASE | SEED_BYTES
  | ACCOUNT_IDX | CHANGE_IDX
  | MASTER_KEY | PURPOSE_KEY | COIN_KEY | ACCOUNT_KEY | CHANGE_KEY
  | ADDRESS_OFF | ADDRESS

text \<open>\<open>HdWalletBipConst.DATA_TYPE_TO_DICT_KEY\<close>: the dictionary key of every data type.\<close>

fun DATA_TYPE_TO_DICT_KEY :: "HdWalletBipDataTypes \<Rightarrow> string" where
  "DATA_TYPE_TO_DICT_KEY WALLET_NAME = ''wallet_name''"
| "DATA_TYPE_TO_DICT_KEY COIN_NAME = ''coin_name''"
| "DATA_TYPE_TO_DICT_KEY SPEC_NAME = ''spec_name''"
| "DATA_TYPE_TO_DICT_KEY MNEMONIC = ''mnemonic''"
| "DATA_TYPE_TO_DICT_KEY PASSPHRASE = ''passphrase''"
| "DATA_TYPE_TO_DICT_KEY SEED_BYTES = ''seed_bytes''"
| "DATA_TYPE_TO_DICT_KEY ACCOUNT_IDX = ''account_idx''"
| "DATA_TYPE_TO_DICT_KEY CHANGE_IDX = ''change_idx''"
| "DATA_TYPE_TO_DICT_KEY MASTER_KEY = ''master_key''"
| "DATA_TYPE_TO_DICT_KEY PURPOSE_KEY = ''purpose_key''"
| "DATA_TYPE_TO_DICT_KEY COIN_KEY = ''coin_key''"
| "DATA_TYPE_TO_DICT_KEY ACCOUNT_KEY = ''account_key''"
| "DATA_TYPE_TO_DICT_KEY CHANGE_KEY = ''change_key''"
| "DATA_TYPE_TO_DICT_KEY ADDRESS_OFF = ''address_off''"
| "DATA_TYPE_TO_DICT_KEY ADDRESS = ''address''"

text \<open>\<open>Bip32KeyDataConst.KEY_INDEX_MAX_VAL\<close> of the BIP library: the largest key index.\<close>

definition KEY_INDEX_MAX_VAL :: int where
  "KEY_INDEX_MAX_VAL = 2 ^ 32 - 1"

section \<open>The BIP library as a parameter\<close>

text \<open>
  \<open>Bip44Base\<close> belongs to the external library \<open>bip_utils\<close>; its objects are values of an
  arbitrary type \<open>'b\<close> and its methods are the fields of the record below. A method that
  may raise returns a sum, \<open>Inl\<close> holding the library's exception (type \<open>'e\<close>). An object
  carries exactly one level, so \<open>IsLevel\<close> is a comparison with \<open>Level\<close>. The objects are
  immutable: a derivation returns a new object.

  \<open>HdWalletBipKeys\<close> is the constructor of the wallet's key container (of the wallet
  package, in a module of its own): it reads the key material of a BIP object. What it
  computes is left open (type \<open>'k\<close>); it may raise as well.
\<close>

record ('b, 'e, 'k) bip_env =
  Level :: "'b \<Rightarrow> Bip44Levels"
  IsPublicOnly :: "'b \<Rightarrow> bool"
  Purpose :: "'b \<Rightarrow> 'e + 'b"
  Coin :: "'b \<Rightarrow> 'e + 'b"
  Account :: "'b \<Rightarrow> int \<Rightarrow> 'e + 'b"
  Change :: "'b \<Rightarrow> HdWalletBipChanges \<Rightarrow> 'e + 'b"
  AddressIndex :: "'b \<Rightarrow> int \<Rightarrow> 'e + 'b"
  SpecName :: "'b \<Rightarrow> string"
  CoinName :: "'b \<Rightarrow> string"
  CoinAbbreviation :: "'b \<Rightarrow> string"
  HdWalletBipKeys :: "'b \<Rightarrow> 'e + 'k"

definition IsLevel :: "('b, 'e, 'k) bip_env \<Rightarrow> 'b \<Rightarrow> Bip44Levels \<Rightarrow> bool" where
  "IsLevel env b l \<longleftrightarrow> Level env b = l"

section \<open>Wallet state, errors and actions\<close>

text \<open>
  The values stored in the wallet dictionary: strings, integers, the keys of one level and
  the address entries (index and keys, in the order of generation).
\<close>

datatype 'k wallet_value =
    StrVal string
  | IntVal int
  | KeysVal 'k
  | AddressesVal "(int \<times> 'k) list"

text \<open>The wallet object: the BIP object it was built from and the dictionary of its data.\<close>

record ('b, 'k) HdWalletBip =
  m_bip_obj :: 'b
  m_wallet_data :: "string \<rightharpoonup> 'k wallet_value"

text \<open>
  The exceptions of \<open>Generate\<close>: its own \<open>TypeError\<close> and \<open>ValueError\<close> (with their
  messages) and whatever a derivation of the library or the construction of a key
  container raises.
\<close>

datatype 'e error = TypeError string | ValueError string | LibraryError 'e

text \<open>
  A method of the wallet takes the wallet and returns its result, or the exception raised,
  together with the wallet as it is at that moment: what was written before an exception
  stays written.
\<close>

type_synonym ('b, 'e, 'k, 'a) action =
  "('b, 'k) HdWalletBip \<Rightarrow> ('e error + 'a) \<times> ('b, 'k) HdWalletBip"

definition ret :: "'a \<Rightarrow> ('b, 'e, 'k, 'a) action" where
  "ret a = (\<lambda>w. (Inr a, w))"

definition raise :: "'e error \<Rightarrow> ('b, 'e, 'k, 'a) action" where
  "raise e = (\<lambda>w. (Inl e, w))"

definition bind :: "('b, 'e, 'k, 'a) action \<Rightarrow> ('a \<Rightarrow> ('b, 'e, 'k, 'c) action)
    \<Rightarrow> ('b, 'e, 'k, 'c) action" where
  "bind m f = (\<lambda>w. case m w of (Inl e, w') \<Rightarrow> (Inl e, w') | (Inr a, w') \<Rightarrow> f a w')"

text \<open>A call into the library: its exception propagates, the wallet is not touched.\<close>

definition lib :: "'e + 'a \<Rightarrow> ('b, 'e, 'k, 'a) action" where
  "lib r = (case r of Inl e \<Rightarrow> raise (LibraryError e) | Inr a \<Rightarrow> ret a)"

text \<open>
  Modelled from the spec: \<open>HdWalletBase._SetData\<close>, of the wallet's base class, is not
  among the sources. The spec describes the result as a mapping from the symbolic keys to
  their values, filled by repeated "set data" calls: the value is stored under the
  dictionary key of the data type, replacing a value already there.
\<close>

definition SetData :: "HdWalletBipDataTypes \<Rightarrow> 'k wallet_value \<Rightarrow> ('b, 'e, 'k, unit) action" where
  "SetData data_type data_value =
     (\<lambda>w. (Inr (), w\<lparr>m_wallet_data := (m_wallet_data w)(DATA_TYPE_TO_DICT_KEY data_type \<mapsto> data_value)\<rparr>))"

text \<open>\<open>HdWalletBip.__SetKeys\<close>: build the key container, then store it.\<close>

definition SetKeys :: "('b, 'e, 'k) bip_env \<Rightarrow> HdWalletBipDataTypes \<Rightarrow> 'b \<Rightarrow> ('b, 'e, 'k, unit) action" where
  "SetKeys env data_type bip_obj =
     bind (lib (HdWalletBipKeys env bip_obj)) (\<lambda>keys. SetData data_type (KeysVal keys))"

section \<open>Address generation\<close>

text \<open>
  Modelled from the spec: \<open>HdWalletBipAddresses\<close> is not among the sources. By the spec,
  for every index of the range \<open>[offset, offset + count)\<close>, in ascending order, the child
  at that index is derived from the change key and its keys and address are extracted;
  the range is materialised eagerly and the first failure aborts it. A key that is already
  at the address-index level is a pre-derived address: it is taken as it is.
\<close>

definition address_entry :: "('b, 'e, 'k) bip_env \<Rightarrow> 'b \<Rightarrow> int \<Rightarrow> 'e + 'k" where
  "address_entry env bip_obj i =
     (if IsLevel env bip_obj ADDRESS_INDEX then HdWalletBipKeys env bip_obj
      else case AddressIndex env bip_obj i of
             Inl e \<Rightarrow> Inl e
           | Inr bip_obj_addr \<Rightarrow> HdWalletBipKeys env bip_obj_addr)"

fun address_entries :: "('b, 'e, 'k) bip_env \<Rightarrow> 'b \<Rightarrow> int list \<Rightarrow> 'e + (int \<times> 'k) list" where
  "address_entries env bip_obj [] = Inr []"
| "address_entries env bip_obj (i # is) =
     (case address_entry env bip_obj i of
        Inl e \<Rightarrow> Inl e
      | Inr keys \<Rightarrow>
          (case address_entries env bip_obj is of
             Inl e \<Rightarrow> Inl e
           | Inr rest \<Rightarrow> Inr ((i, keys) # rest)))"

definition HdWalletBipAddresses :: "('b, 'e, 'k) bip_env \<Rightarrow> 'b \<Rightarrow> int \<Rightarrow> int \<Rightarrow> 'e + (int \<times> 'k) list" where
  "HdWalletBipAddresses env bip_obj addr_num addr_off =
     address_entries env bip_obj [addr_off .. addr_off + addr_num - 1]"

section \<open>Construction\<close>

text \<open>
  Modelled from the spec: \<open>Utils.BytesToHexString\<close> is not among the sources; the spec
  asks for the seed bytes rendered as lowercase hex.
\<close>

definition hex_digit :: "nat \<Rightarrow> char" where
  "hex_digit n = ''0123456789abcdef'' ! (n mod 16)"

definition BytesToHexString :: "8 word list \<Rightarrow> string" where
  "BytesToHexString data_bytes =
     concat (map (\<lambda>b. [hex_digit (unat b div 16), hex_digit (unat b mod 16)]) data_bytes)"

text \<open>\<open>HdWalletBip.__InitData\<close>.\<close>

definition InitData :: "('b, 'e, 'k) bip_env \<Rightarrow> string \<Rightarrow> string \<Rightarrow> string \<Rightarrow> 8 word list
    \<Rightarrow> ('b, 'e, 'k, unit) action" where
  "InitData env wallet_name mnemonic passphrase seed_bytes =
     (\<lambda>w.
        (bind (SetData WALLET_NAME (StrVal wallet_name)) (\<lambda>_.
         bind (SetData SPEC_NAME (StrVal (SpecName env (m_bip_obj w)))) (\<lambda>_.
         bind (SetData COIN_NAME
                (StrVal (CoinName env (m_bip_obj w) @ '' ('' @ CoinAbbreviation env (m_bip_obj w) @ '')''))) (\<lambda>_.
         bind (if mnemonic \<noteq> ''''
               then bind (SetData MNEMONIC (StrVal mnemonic)) (\<lambda>_.
                          SetData PASSPHRASE (StrVal passphrase))
               else ret ()) (\<lambda>_.
         if seed_bytes \<noteq> []
         then SetData SEED_BYTES (StrVal (BytesToHexString seed_bytes))
         else ret ()))))) w)"

text \<open>
  Modelled from the spec: the constructor of the base class \<open>HdWalletBase\<close> is not among
  the sources. By the spec the fields of the result that were never set are absent: a new
  wallet holds no data.
\<close>

definition HdWalletBase_init :: "string \<rightharpoonup> 'k wallet_value" where
  "HdWalletBase_init = Map.empty"

text \<open>
  \<open>HdWalletBip.__init__\<close>: the base class is initialised, the BIP object is kept and the
  data are initialised. Nothing here raises.
\<close>

definition HdWalletBip_init :: "('b, 'e, 'k) bip_env \<Rightarrow> string \<Rightarrow> 'b \<Rightarrow> string \<Rightarrow> string \<Rightarrow> 8 word list
    \<Rightarrow> ('b, 'k) HdWalletBip" where
  "HdWalletBip_init env wallet_name bip_obj mnemonic passphrase seed_bytes =
     snd (InitData env wallet_name mnemonic passphrase seed_bytes
            \<lparr>m_bip_obj = bip_obj, m_wallet_data = HdWalletBase_init\<rparr>)"

section \<open>Generate\<close>

text \<open>
  The keyword arguments of \<open>Generate\<close>: each may be absent. \<open>change_idx\<close> may be any Python
  value; the ones told apart here are a member of \<open>HdWalletBipChanges\<close>, a plain integer,
  a string and \<open>None\<close>.
\<close>

datatype py_value = ChangesObj HdWalletBipChanges | IntObj int | StrObj string | NoneObj

record kwargs =
  acc_idx :: "int option"
  change_idx :: "py_value option"
  addr_num :: "int option"
  addr_off :: "int option"

definition kwargs_get :: "'a option \<Rightarrow> 'a \<Rightarrow> 'a" where
  "kwargs_get v d = (case v of None \<Rightarrow> d | Some x \<Rightarrow> x)"

text \<open>\<open>isinstance(change_idx, HdWalletBipChanges)\<close>, giving the member when it is one.\<close>

fun isinstance_HdWalletBipChanges :: "py_value \<Rightarrow> HdWalletBipChanges option" where
  "isinstance_HdWalletBipChanges (ChangesObj c) = Some c"
| "isinstance_HdWalletBipChanges _ = None"

text \<open>The five blocks of \<open>Generate\<close>, one for each level, in the order of the source.\<close>

definition master_level :: "('b, 'e, 'k) bip_env \<Rightarrow> 'b \<Rightarrow> ('b, 'e, 'k, 'b) action" where
  "master_level env bip_obj =
     (if IsLevel env bip_obj MASTER
      then bind (SetKeys env MASTER_KEY bip_obj) (\<lambda>_. lib (Purpose env bip_obj))
      else ret bip_obj)"

definition purpose_level :: "('b, 'e, 'k) bip_env \<Rightarrow> 'b \<Rightarrow> ('b, 'e, 'k, 'b) action" where
  "purpose_level env bip_obj =
     (if IsLevel env bip_obj PURPOSE
      then bind (SetKeys env PURPOSE_KEY bip_obj) (\<lambda>_. lib (Coin env bip_obj))
      else ret bip_obj)"

definition coin_level :: "('b, 'e, 'k) bip_env \<Rightarrow> int \<Rightarrow> 'b \<Rightarrow> ('b, 'e, 'k, 'b) action" where
  "coin_level env acc bip_obj =
     (if IsLevel env bip_obj COIN
      then bind (SetKeys env COIN_KEY bip_obj) (\<lambda>_.
           bind (SetData ACCOUNT_IDX (IntVal acc)) (\<lambda>_.
           lib (Account env bip_obj acc)))
      else ret bip_obj)"

definition account_level :: "('b, 'e, 'k) bip_env \<Rightarrow> HdWalletBipChanges \<Rightarrow> 'b \<Rightarrow> ('b, 'e, 'k, 'b) action" where
  "account_level env chg bip_obj =
     (if IsLevel env bip_obj ACCOUNT
      then bind (SetKeys env ACCOUNT_KEY bip_obj) (\<lambda>_.
           bind (SetData CHANGE_IDX (IntVal (int_of_changes chg))) (\<lambda>_.
           lib (Change env bip_obj chg)))
      else ret bip_obj)"

definition change_level :: "('b, 'e, 'k) bip_env \<Rightarrow> int \<Rightarrow> int \<Rightarrow> 'b \<Rightarrow> ('b, 'e, 'k, unit) action" where
  "change_level env num off bip_obj =
     (if IsLevel env bip_obj CHANGE
      then bind (SetKeys env CHANGE_KEY bip_obj) (\<lambda>_.
           bind (if off \<noteq> 0 then SetData ADDRESS_OFF (IntVal off) else ret ()) (\<lambda>_.
           bind (lib (HdWalletBipAddresses env bip_obj num off)) (\<lambda>addrs.
           SetData ADDRESS (AddressesVal addrs))))
      else bind (lib (HdWalletBipAddresses env bip_obj 1 0)) (\<lambda>addrs.
           SetData ADDRESS (AddressesVal addrs)))"

text \<open>The walk from the level of the given object down to the addresses.\<close>

definition derive_levels :: "('b, 'e, 'k) bip_env \<Rightarrow> int \<Rightarrow> HdWalletBipChanges \<Rightarrow> int \<Rightarrow> int \<Rightarrow> 'b
    \<Rightarrow> ('b, 'e, 'k, unit) action" where
  "derive_levels env acc chg num off bip_obj =
     bind (master_level env bip_obj) (\<lambda>bip_obj.
     bind (purpose_level env bip_obj) (\<lambda>bip_obj.
     bind (coin_level env acc bip_obj) (\<lambda>bip_obj.
     bind (account_level env chg bip_obj) (\<lambda>bip_obj.
     change_level env num off bip_obj))))"

text \<open>The parameters of \<open>Generate\<close>, each with its default.\<close>

definition param_acc_idx :: "kwargs \<Rightarrow> int" where
  "param_acc_idx kw = kwargs_get (acc_idx kw) 0"

definition param_change_idx :: "kwargs \<Rightarrow> py_value" where
  "param_change_idx kw = kwargs_get (change_idx kw) (ChangesObj CHAIN_EXT)"

definition param_addr_num :: "kwargs \<Rightarrow> int" where
  "param_addr_num kw = kwargs_get (addr_num kw) 20"

definition param_addr_off :: "kwargs \<Rightarrow> int" where
  "param_addr_off kw = kwargs_get (addr_off kw) 0"

text \<open>\<open>HdWalletBip.Generate\<close>: the parameters, the checks, the walk.\<close>

definition Generate :: "('b, 'e, 'k) bip_env \<Rightarrow> kwargs \<Rightarrow> ('b, 'e, 'k, unit) action" where
  "Generate env kw =
     (\<lambda>w.
        case isinstance_HdWalletBipChanges (param_change_idx kw) of
          None \<Rightarrow> raise (TypeError ''Change index is not an enumerative of HdWalletBipChanges'') w
        | Some chg \<Rightarrow>
            if param_addr_num kw < 0 \<or> param_addr_num kw > KEY_INDEX_MAX_VAL
            then raise (ValueError ''Address number shall be greater or equal to zero and less than 2^32'') w
            else if param_addr_off kw < 0 \<or> param_addr_off kw + param_addr_num kw > KEY_INDEX_MAX_VAL
            then raise (ValueError ''Address offset shall be greater or equal to zero and less than 2^32'') w
            else derive_levels env (param_acc_idx kw) chg (param_addr_num kw) (param_addr_off kw)
                   (m_bip_obj w) w)"

text \<open>\<open>HdWalletBip.IsWatchOnly\<close>.\<close>

definition IsWatchOnly :: "('b, 'e, 'k) bip_env \<Rightarrow> ('b, 'k) HdWalletBip \<Rightarrow> bool" where
  "IsWatchOnly env w = IsPublicOnly env (m_bip_obj w)"

text \<open>A sequence of \<open>Generate\<close> calls on one wallet, whether they return or raise.\<close>

fun Generate_calls :: "('b, 'e, 'k) bip_env \<Rightarrow> kwargs list \<Rightarrow> ('b, 'k) HdWalletBip \<Rightarrow> ('b, 'k) HdWalletBip" where
  "Generate_calls env [] w = w"
| "Generate_calls env (kw # kws) w = Generate_calls env kws (snd (Generate env kw w))"

section \<open>A small instance of the library\<close>

text \<open>
  For evaluating the model on concrete wallets: a BIP object is its level, the path of
  indices it was derived along and whether it is public-only. Hardened derivations
  (purpose, coin, account) need the private key; an index outside \<open>[0, 2^32 - 1]\<close> is
  rejected; every method checks the level it is called at. The key container of an
  object is the object itself.
\<close>

datatype sample_bip = SampleBip (sb_level: Bip44Levels) (sb_path: "int list") (sb_public: bool)

definition sample_derive :: "Bip44Levels \<Rightarrow> Bip44Levels \<Rightarrow> bool \<Rightarrow> sample_bip \<Rightarrow> int
    \<Rightarrow> string + sample_bip" where
  "sample_derive from to hardened b i =
     (if sb_level b \<noteq> from then Inl ''Bip44DepthError''
      else if hardened \<and> sb_public b then Inl ''Bip32KeyError''
      else if i < 0 \<or> i > KEY_INDEX_MAX_VAL then Inl ''Invalid key index''
      else Inr (SampleBip to (sb_path b @ [i]) (sb_public b)))"

definition sample_env :: "(sample_bip, string, sample_bip) bip_env" where
  "sample_env =
     \<lparr> Level = sb_level,
       IsPublicOnly = sb_public,
       Purpose = (\<lambda>b. sample_derive MASTER PURPOSE True b 44),
       Coin = (\<lambda>b. sample_derive PURPOSE COIN True b 0),
       Account = (\<lambda>b i. sample_derive COIN ACCOUNT True b i),
       Change = (\<lambda>b c. sample_derive ACCOUNT CHANGE False b (int_of_changes c)),
       AddressIndex = (\<lambda>b i. sample_derive CHANGE ADDRESS_INDEX False b i),
       SpecName = (\<lambda>b. ''BIP-0044''),
       CoinName = (\<lambda>b. ''Bitcoin''),
       CoinAbbreviation = (\<lambda>b. ''BTC''),
       HdWalletBipKeys = (\<lambda>b. Inr b) \<rparr>"

definition sample_master :: sample_bip where
  "sample_master = SampleBip MASTER [] False"

definition sample_wallet :: "(sample_bip, sample_bip) HdWalletBip" where
  "sample_wallet = HdWalletBip_init sample_env ''wallet'' sample_master [] [] []"

definition no_kwargs :: kwargs where
  "no_kwargs = \<lparr>acc_idx = None, change_idx = None, addr_num = None, addr_off = None\<rparr>"


definition sample_generated_off :: "(sample_bip, sample_bip) HdWalletBip" where
  "sample_generated_off =
     snd (Generate sample_env (no_kwargs\<lparr>addr_num := Some 2, addr_off := Some 5\<rparr>) sample_wallet)"

definition sample_address_key :: sample_bip where
  "sample_address_key = SampleBip ADDRESS_INDEX [44, 0, 0, 0, 7] True"

definition sample_address_wallet :: "(sample_bip, sample_bip) HdWalletBip" where
  "sample_address_wallet = HdWalletBip_init sample_env ''watch'' sample_address_key [] [] []"

section \<open>Notions used in the proofs\<close>


text \<open>The dictionary keys that \<open>Generate\<close> may write.\<close>

definition generated_keys :: "string set" where
  "generated_keys = DATA_TYPE_TO_DICT_KEY ` {ACCOUNT_IDX, CHANGE_IDX, MASTER_KEY, PURPOSE_KEY,
     COIN_KEY, ACCOUNT_KEY, CHANGE_KEY, ADDRESS_OFF, ADDRESS}"

text \<open>
  An action that never reads the dictionary: its result and what it writes are the same
  for every wallet, it writes generated keys only, and it fails with a library error only.
\<close>

definition records :: "('b, 'e, 'k, 'a) action \<Rightarrow> bool" where
  "records act \<longleftrightarrow>
     (\<exists>r ws. dom ws \<subseteq> generated_keys \<and> (\<forall>e. r = Inl e \<longrightarrow> (\<exists>x. e = LibraryError x)) \<and>
        (\<forall>w. act w = (r, w\<lparr>m_wallet_data := m_wallet_data w ++ ws\<rparr>)))"

section \<open>What the actions write\<close>

lemma records_ret: "records (ret a)"
  unfolding records_def ret_def
  by (rule exI [of _ "Inr a"], rule exI [of _ Map.empty]) simp

lemma records_lib: "records (lib r)"
  unfolding records_def lib_def ret_def raise_def
  by (rule exI [of _ "case r of Inl e \<Rightarrow> Inl (LibraryError e) | Inr a \<Rightarrow> Inr a"],
      rule exI [of _ Map.empty]) (simp split: sum.splits)

lemma records_SetData:
  assumes "DATA_TYPE_TO_DICT_KEY t \<in> generated_keys"
  shows "records (SetData t v)"
  unfolding records_def SetData_def
  by (rule exI [of _ "Inr ()"], rule exI [of _ "[DATA_TYPE_TO_DICT_KEY t \<mapsto> v]"])
     (use assms in simp)

lemma records_bind:
  assumes m: "records m" and f: "\<And>a. records (f a)"
  shows "records (bind m f)"
proof -
  from m obtain r ws where ws: "dom ws \<subseteq> generated_keys"
    and r: "\<forall>e. r = Inl e \<longrightarrow> (\<exists>x. e = LibraryError x)"
    and eq: "\<And>w. m w = (r, w\<lparr>m_wallet_data := m_wallet_data w ++ ws\<rparr>)"
    unfolding records_def by blast
  show ?thesis
  proof (cases r)
    case (Inl e)
    have "\<And>w. bind m f w = (Inl e, w\<lparr>m_wallet_data := m_wallet_data w ++ ws\<rparr>)"
      by (simp add: bind_def eq Inl)
    with ws r Inl show ?thesis
      unfolding records_def by blast
  next
    case (Inr a)
    from f [of a] obtain r' ws' where ws': "dom ws' \<subseteq> generated_keys"
      and r': "\<forall>e. r' = Inl e \<longrightarrow> (\<exists>x. e = LibraryError x)"
      and eq': "\<And>w. f a w = (r', w\<lparr>m_wallet_data := m_wallet_data w ++ ws'\<rparr>)"
      unfolding records_def by blast
    have "\<And>w. bind m f w = (r', w\<lparr>m_wallet_data := m_wallet_data w ++ (ws ++ ws')\<rparr>)"
      by (simp add: bind_def eq Inr eq')
    moreover have "dom (ws ++ ws') \<subseteq> generated_keys"
      using ws ws' by auto
    ultimately show ?thesis
      using r' unfolding records_def by blast
  qed
qed

lemma records_SetKeys:
  "DATA_TYPE_TO_DICT_KEY t \<in> generated_keys \<Longrightarrow> records (SetKeys env t b)"
  unfolding SetKeys_def by (intro records_bind records_lib records_SetData)

lemma generated_keys_simps:
  "DATA_TYPE_TO_DICT_KEY ACCOUNT_IDX \<in> generated_keys"
  "DATA_TYPE_TO_DICT_KEY CHANGE_IDX \<in> generated_keys"
  "DATA_TYPE_TO_DICT_KEY MASTER_KEY \<in> generated_keys"
  "DATA_TYPE_TO_DICT_KEY PURPOSE_KEY \<in> generated_keys"
  "DATA_TYPE_TO_DICT_KEY COIN_KEY \<in> generated_keys"
  "DATA_TYPE_TO_DICT_KEY ACCOUNT_KEY \<in> generated_keys"
  "DATA_TYPE_TO_DICT_KEY CHANGE_KEY \<in> generated_keys"
  "DATA_TYPE_TO_DICT_KEY ADDRESS_OFF \<in> generated_keys"
  "DATA_TYPE_TO_DICT_KEY ADDRESS \<in> generated_keys"
  unfolding generated_keys_def by blast+

lemma records_if: "records a \<Longrightarrow> records b \<Longrightarrow> records (if c then a else b)"
  by simp

lemmas records_intros = records_if records_bind records_lib records_ret records_SetData
  records_SetKeys generated_keys_simps

lemma records_master_level: "records (master_level env b)"
  unfolding master_level_def by (intro records_intros)

lemma records_purpose_level: "records (purpose_level env b)"
  unfolding purpose_level_def by (intro records_intros)

lemma records_coin_level: "records (coin_level env acc b)"
  unfolding coin_level_def by (intro records_intros)

lemma records_account_level: "records (account_level env chg b)"
  unfolding account_level_def by (intro records_intros)

lemma records_change_level: "records (change_level env num off b)"
  unfolding change_level_def by (intro records_intros)

lemma records_derive_levels: "records (derive_levels env acc chg num off b)"
  unfolding derive_levels_def
  by (intro records_bind records_master_level records_purpose_level records_coin_level
      records_account_level records_change_level)

text \<open>What one call does to any wallet built on the object \<open>b\<close>.\<close>

lemma Generate_effect:
  "\<exists>r ws. dom ws \<subseteq> generated_keys \<and>
     (\<forall>w. m_bip_obj w = b \<longrightarrow>
        Generate env kw w = (r, w\<lparr>m_wallet_data := m_wallet_data w ++ ws\<rparr>))"
proof -
  let ?goal = "\<lambda>act. \<exists>r ws. dom ws \<subseteq> generated_keys \<and>
     (\<forall>w. m_bip_obj w = b \<longrightarrow>
        act w = (r, w\<lparr>m_wallet_data := m_wallet_data w ++ ws\<rparr>))"
  have rejected: "?goal (Generate env kw)" if "\<And>w. Generate env kw w = (Inl e, w)" for e
    by (rule exI [of _ "Inl e"], rule exI [of _ Map.empty]) (simp add: that)
  show ?thesis
  proof (cases "isinstance_HdWalletBipChanges (param_change_idx kw)")
    case None
    then show ?thesis
      by (intro rejected) (simp add: Generate_def raise_def)
  next
    case (Some chg)
    consider (num) "param_addr_num kw < 0 \<or> param_addr_num kw > KEY_INDEX_MAX_VAL"
      | (off) "\<not> (param_addr_num kw < 0 \<or> param_addr_num kw > KEY_INDEX_MAX_VAL)"
          "param_addr_off kw < 0 \<or> param_addr_off kw + param_addr_num kw > KEY_INDEX_MAX_VAL"
      | (ok) "\<not> (param_addr_num kw < 0 \<or> param_addr_num kw > KEY_INDEX_MAX_VAL)"
          "\<not> (param_addr_off kw < 0 \<or> param_addr_off kw + param_addr_num kw > KEY_INDEX_MAX_VAL)"
      by blast
    then show ?thesis
    proof cases
      case num
      with Some show ?thesis
        by (intro rejected) (simp add: Generate_def raise_def)
    next
      case off
      with Some show ?thesis
        by (intro rejected) (simp add: Generate_def raise_def)
    next
      case ok
      let ?walk = "derive_levels env (param_acc_idx kw) chg (param_addr_num kw) (param_addr_off kw) b"
      from records_derive_levels [of env "param_acc_idx kw" chg "param_addr_num kw" "param_addr_off kw" b]
      obtain r ws where ws: "dom ws \<subseteq> generated_keys"
        and eq: "\<And>w. ?walk w = (r, w\<lparr>m_wallet_data := m_wallet_data w ++ ws\<rparr>)"
        unfolding records_def by blast
      have "\<forall>w. m_bip_obj w = b \<longrightarrow>
          Generate env kw w = (r, w\<lparr>m_wallet_data := m_wallet_data w ++ ws\<rparr>)"
        using Some ok eq by (simp add: Generate_def)
      with ws show ?thesis by blast
    qed
  qed
qed

lemma map_add_twice: "(m ++ n) ++ n = m ++ n"
  by (simp add: map_add_def fun_eq_iff split: option.splits)

lemma Generate_idem: "Generate env kw (snd (Generate env kw w)) = Generate env kw w"
proof -
  from Generate_effect [of "m_bip_obj w" env kw]
  obtain r ws where
    eq: "\<And>v. m_bip_obj v = m_bip_obj w \<Longrightarrow>
           Generate env kw v = (r, v\<lparr>m_wallet_data := m_wallet_data v ++ ws\<rparr>)"
    by blast
  have first: "Generate env kw w = (r, w\<lparr>m_wallet_data := m_wallet_data w ++ ws\<rparr>)"
    by (rule eq) simp
  have "Generate env kw (w\<lparr>m_wallet_data := m_wallet_data w ++ ws\<rparr>)
      = (r, w\<lparr>m_wallet_data := (m_wallet_data w ++ ws) ++ ws\<rparr>)"
    by (subst eq) simp_all
  then show ?thesis
    by (simp add: first map_add_twice)
qed

lemma Generate_bip_obj: "m_bip_obj (snd (Generate env kw w)) = m_bip_obj w"
proof -
  from Generate_effect [of "m_bip_obj w" env kw]
  obtain r ws where "Generate env kw w = (r, w\<lparr>m_wallet_data := m_wallet_data w ++ ws\<rparr>)"
    by blast
  then show ?thesis by simp
qed

lemma Generate_frame:
  assumes "k \<notin> generated_keys"
  shows "m_wallet_data (snd (Generate env kw w)) k = m_wallet_data w k"
proof -
  from Generate_effect [of "m_bip_obj w" env kw]
  obtain r ws where ws: "dom ws \<subseteq> generated_keys"
    and "Generate env kw w = (r, w\<lparr>m_wallet_data := m_wallet_data w ++ ws\<rparr>)"
    by blast
  moreover from ws assms have "ws k = None" by blast
  ultimately show ?thesis by (simp add: map_add_def)
qed

lemma derive_levels_error:
  assumes "derive_levels env acc chg num off b w = (Inl e, w')"
  shows "\<exists>x. e = LibraryError x"
proof -
  from records_derive_levels [of env acc chg num off b]
  obtain r ws where r: "\<forall>e. r = Inl e \<longrightarrow> (\<exists>x. e = LibraryError x)"
    and "derive_levels env acc chg num off b w = (r, w\<lparr>m_wallet_data := m_wallet_data w ++ ws\<rparr>)"
    unfolding records_def by blast
  with assms have "r = Inl e" by simp
  with r show ?thesis by blast
qed

section \<open>The parameter checks\<close>

lemma Generate_not_instance:
  assumes "isinstance_HdWalletBipChanges (param_change_idx kw) = None"
  shows "Generate env kw w
    = (Inl (TypeError ''Change index is not an enumerative of HdWalletBipChanges''), w)"
  using assms by (simp add: Generate_def raise_def)

lemma Generate_out_of_range:
  assumes "isinstance_HdWalletBipChanges (param_change_idx kw) = Some chg"
    and "param_addr_num kw < 0 \<or> param_addr_off kw < 0 \<or>
      param_addr_off kw + param_addr_num kw > 2 ^ 32 - 1"
  shows "\<exists>msg. Generate env kw w = (Inl (ValueError msg), w)"
  using assms by (auto simp add: Generate_def raise_def KEY_INDEX_MAX_VAL_def)

lemma Generate_in_range:
  assumes "isinstance_HdWalletBipChanges (param_change_idx kw) = Some chg"
    and "\<not> (param_addr_num kw < 0 \<or> param_addr_off kw < 0 \<or>
      param_addr_off kw + param_addr_num kw > 2 ^ 32 - 1)"
  shows "Generate env kw w = derive_levels env (param_acc_idx kw) chg (param_addr_num kw)
    (param_addr_off kw) (m_bip_obj w) w"
  using assms by (auto simp add: Generate_def KEY_INDEX_MAX_VAL_def)




section \<open>Construction and sequences of calls\<close>

lemma init_bip_obj:
  "m_bip_obj (HdWalletBip_init env wallet_name bip_obj mnemonic passphrase seed_bytes) = bip_obj"
  by (simp add: HdWalletBip_init_def HdWalletBase_init_def InitData_def bind_def SetData_def ret_def)

lemma Generate_calls_bip_obj: "m_bip_obj (Generate_calls env kws w) = m_bip_obj w"
  by (induction kws arbitrary: w) (simp_all add: Generate_bip_obj)

section \<open>Walks that return\<close>











lemma derive_levels_address_index:
  assumes lvl: "Level env b = ADDRESS_INDEX" and keys: "HdWalletBipKeys env b = Inr k"
  shows "derive_levels env acc chg num off b w =
     (Inr (), w\<lparr>m_wallet_data := (m_wallet_data w)(DATA_TYPE_TO_DICT_KEY ADDRESS \<mapsto> AddressesVal [(0, k)])\<rparr>)"
  using assms
  by (simp add: derive_levels_def master_level_def purpose_level_def coin_level_def
      account_level_def change_level_def IsLevel_def bind_def ret_def lib_def SetData_def
      HdWalletBipAddresses_def address_entry_def)

section \<open>The sample library and the parameters\<close>

lemmas param_defs = param_acc_idx_def param_change_idx_def param_addr_num_def param_addr_off_def
  kwargs_get_def no_kwargs_def


section \<open>Two calls with the same parameters\<close>

text \<open>
  Claim C1 asks that two calls of \<open>Generate\<close> with the same parameters, on wallets with the
  same BIP object, wallet name, mnemonic, passphrase and seed bytes, leave the same
  dictionary. The sample wallet, fresh and after an earlier call with offset 5, has the
  same object and the same data of construction; the call with two addresses and offset 0
  returns on both, without an address offset on the fresh wallet and with the address
  offset 5 on the other.
\<close>

theorem Generate_depends_on_earlier_call:
  "m_bip_obj sample_generated_off = m_bip_obj sample_wallet \<and>
   m_wallet_data sample_generated_off (DATA_TYPE_TO_DICT_KEY WALLET_NAME)
     = m_wallet_data sample_wallet (DATA_TYPE_TO_DICT_KEY WALLET_NAME) \<and>
   m_wallet_data sample_generated_off (DATA_TYPE_TO_DICT_KEY COIN_NAME)
     = m_wallet_data sample_wallet (DATA_TYPE_TO_DICT_KEY COIN_NAME) \<and>
   m_wallet_data sample_generated_off (DATA_TYPE_TO_DICT_KEY SPEC_NAME)
     = m_wallet_data sample_wallet (DATA_TYPE_TO_DICT_KEY SPEC_NAME) \<and>
   m_wallet_data sample_generated_off (DATA_TYPE_TO_DICT_KEY MNEMONIC)
     = m_wallet_data sample_wallet (DATA_TYPE_TO_DICT_KEY MNEMONIC) \<and>
   m_wallet_data sample_generated_off (DATA_TYPE_TO_DICT_KEY PASSPHRASE)
     = m_wallet_data sample_wallet (DATA_TYPE_TO_DICT_KEY PASSPHRASE) \<and>
   m_wallet_data sample_generated_off (DATA_TYPE_TO_DICT_KEY SEED_BYTES)
     = m_wallet_data sample_wallet (DATA_TYPE_TO_DICT_KEY SEED_BYTES) \<and>
   fst (Generate sample_env (no_kwargs\<lparr>addr_num := Some 2, addr_off := Some 0\<rparr>) sample_wallet)
     = Inr () \<and>
   fst (Generate sample_env (no_kwargs\<lparr>addr_num := Some 2, addr_off := Some 0\<rparr>) sample_generated_off)
     = Inr () \<and>
   m_wallet_data (snd (Generate sample_env (no_kwargs\<lparr>addr_num := Some 2, addr_off := Some 0\<rparr>)
       sample_wallet)) (DATA_TYPE_TO_DICT_KEY ADDRESS_OFF) = None \<and>
   m_wallet_data (snd (Generate sample_env (no_kwargs\<lparr>addr_num := Some 2, addr_off := Some 0\<rparr>)
       sample_generated_off)) (DATA_TYPE_TO_DICT_KEY ADDRESS_OFF) = Some (IntVal 5)"
proof -
  let ?kw = "no_kwargs\<lparr>addr_num := Some 2, addr_off := Some 0\<rparr>"
  have obj: "m_bip_obj sample_generated_off = m_bip_obj sample_wallet"
    unfolding sample_generated_off_def by (rule Generate_bip_obj)
  have kept: "m_wallet_data sample_generated_off (DATA_TYPE_TO_DICT_KEY t)
      = m_wallet_data sample_wallet (DATA_TYPE_TO_DICT_KEY t)"
    if "DATA_TYPE_TO_DICT_KEY t \<notin> generated_keys" for t
    unfolding sample_generated_off_def using that by (rule Generate_frame)
  have fresh: "fst (Generate sample_env ?kw sample_wallet) = Inr ()"
    "m_wallet_data (snd (Generate sample_env ?kw sample_wallet))
       (DATA_TYPE_TO_DICT_KEY ADDRESS_OFF) = None"
    by code_simp+
  have used: "fst (Generate sample_env ?kw sample_generated_off) = Inr ()"
    "m_wallet_data (snd (Generate sample_env ?kw sample_generated_off))
       (DATA_TYPE_TO_DICT_KEY ADDRESS_OFF) = Some (IntVal 5)"
    by code_simp+
  show ?thesis
    by (intro conjI obj fresh used kept) (simp_all add: generated_keys_def)
qed

section \<open>Rejected parameters\<close>

text \<open>
  Claim C2. For a call whose change index is a member of \<open>HdWalletBipChanges\<close> (as the
  default is), \<open>Generate\<close> raises a \<open>ValueError\<close>, its range error, if and only if the
  number of addresses is negative, the offset is negative, or offset plus number exceeds
  \<open>2^32 - 1\<close>; the wallet is then exactly as before the call, and what the library
  would have derived plays no part: no key was stored and no derivation was made.
\<close>

theorem Generate_ValueError:
  assumes "isinstance_HdWalletBipChanges (param_change_idx kw) \<noteq> None"
  shows "(\<exists>msg. Generate env kw w = (Inl (ValueError msg), w')) \<longleftrightarrow>
     (param_addr_num kw < 0 \<or> param_addr_off kw < 0 \<or>
      param_addr_off kw + param_addr_num kw > 2 ^ 32 - 1) \<and> w' = w"
proof -
  from assms obtain chg where chg: "isinstance_HdWalletBipChanges (param_change_idx kw) = Some chg"
    by blast
  show ?thesis
  proof (cases "param_addr_num kw < 0 \<or> param_addr_off kw < 0 \<or>
      param_addr_off kw + param_addr_num kw > 2 ^ 32 - 1")
    case True
    from Generate_out_of_range [OF chg True, of env w]
    obtain msg where "Generate env kw w = (Inl (ValueError msg), w)" by blast
    with True show ?thesis by auto
  next
    case False
    have "Generate env kw w \<noteq> (Inl (ValueError msg), w')" for msg
    proof
      assume "Generate env kw w = (Inl (ValueError msg), w')"
      with Generate_in_range [OF chg False, of env w]
      have "derive_levels env (param_acc_idx kw) chg (param_addr_num kw) (param_addr_off kw)
          (m_bip_obj w) w = (Inl (ValueError msg), w')"
        by simp
      from derive_levels_error [OF this] show False by simp
    qed
    with False show ?thesis by simp
  qed
qed

theorem Generate_ValueError_witness:
  "isinstance_HdWalletBipChanges (param_change_idx (no_kwargs\<lparr>addr_num := Some (- 1)\<rparr>)) \<noteq> None \<and>
   (\<exists>msg. Generate sample_env (no_kwargs\<lparr>addr_num := Some (- 1)\<rparr>) sample_wallet
      = (Inl (ValueError msg), sample_wallet))"
  using Generate_ValueError [of "no_kwargs\<lparr>addr_num := Some (- 1)\<rparr>" sample_env sample_wallet sample_wallet]
  by (simp add: param_defs)

text \<open>
  Claim C7. \<open>Generate\<close> raises its \<open>TypeError\<close> if and only if the change index is not a
  member of \<open>HdWalletBipChanges\<close>; the wallet is then exactly as before the call, and the
  library plays no part: the check comes before any derivation and any write.
\<close>

theorem Generate_TypeError:
  "Generate env kw w = (Inl (TypeError msg), w') \<longleftrightarrow>
     isinstance_HdWalletBipChanges (param_change_idx kw) = None \<and>
     msg = ''Change index is not an enumerative of HdWalletBipChanges'' \<and> w' = w"
proof (cases "isinstance_HdWalletBipChanges (param_change_idx kw)")
  case None
  from Generate_not_instance [OF None, of env w] None show ?thesis by auto
next
  case (Some chg)
  have "Generate env kw w \<noteq> (Inl (TypeError msg), w')"
  proof
    assume run: "Generate env kw w = (Inl (TypeError msg), w')"
    show False
    proof (cases "param_addr_num kw < 0 \<or> param_addr_off kw < 0 \<or>
        param_addr_off kw + param_addr_num kw > 2 ^ 32 - 1")
      case True
      from Generate_out_of_range [OF Some True, of env w] run show False by auto
    next
      case False
      from Generate_in_range [OF Some False, of env w] run
      have "derive_levels env (param_acc_idx kw) chg (param_addr_num kw) (param_addr_off kw)
          (m_bip_obj w) w = (Inl (TypeError msg), w')"
        by simp
      from derive_levels_error [OF this] show False by simp
    qed
  qed
  with Some show ?thesis by simp
qed

section \<open>Failed calls\<close>




section \<open>The wallet after a successful call\<close>



text \<open>
  Claim C6. When the wallet's object is at the address-index level and the parameters
  pass the checks, \<open>Generate\<close> does not walk the requested range: whatever the number and
  the offset are, it returns having written the address entry alone, with the single
  entry of index 0 made from the object itself; no key of the change level or of a level
  above is recorded.
\<close>

theorem Generate_address_index_key:
  assumes lvl: "Level env (m_bip_obj w) = ADDRESS_INDEX"
    and chg: "isinstance_HdWalletBipChanges (param_change_idx kw) \<noteq> None"
    and N: "0 \<le> param_addr_num kw" and O: "0 \<le> param_addr_off kw"
    and NO: "param_addr_off kw + param_addr_num kw \<le> 2 ^ 32 - 1"
    and keys: "HdWalletBipKeys env (m_bip_obj w) = Inr k"
  shows "Generate env kw w =
     (Inr (), w\<lparr>m_wallet_data := (m_wallet_data w)(DATA_TYPE_TO_DICT_KEY ADDRESS \<mapsto> AddressesVal [(0, k)])\<rparr>)"
proof -
  from chg obtain c where "isinstance_HdWalletBipChanges (param_change_idx kw) = Some c" by blast
  moreover from N O NO have "param_addr_num kw \<le> 2 ^ 32 - 1" by simp
  ultimately have "Generate env kw w = derive_levels env (param_acc_idx kw) c (param_addr_num kw)
      (param_addr_off kw) (m_bip_obj w) w"
    using N O NO by (simp add: Generate_def KEY_INDEX_MAX_VAL_def)
  with derive_levels_address_index [OF lvl keys] show ?thesis by simp
qed

theorem Generate_address_index_key_witness:
  "Level sample_env (m_bip_obj sample_address_wallet) = ADDRESS_INDEX \<and>
   Generate sample_env (no_kwargs\<lparr>addr_num := Some 3, addr_off := Some 9\<rparr>) sample_address_wallet
     = (Inr (), sample_address_wallet\<lparr>m_wallet_data :=
          (m_wallet_data sample_address_wallet)
            (DATA_TYPE_TO_DICT_KEY ADDRESS \<mapsto> AddressesVal [(0, sample_address_key)])\<rparr>)"
proof -
  let ?kw = "no_kwargs\<lparr>addr_num := Some 3, addr_off := Some 9\<rparr>"
  have obj: "m_bip_obj sample_address_wallet = sample_address_key"
    by (simp add: sample_address_wallet_def init_bip_obj)
  have lvl: "Level sample_env (m_bip_obj sample_address_wallet) = ADDRESS_INDEX"
    by (simp add: obj sample_env_def sample_address_key_def)
  have keys: "HdWalletBipKeys sample_env (m_bip_obj sample_address_wallet) = Inr sample_address_key"
    by (simp add: obj sample_env_def)
  from Generate_address_index_key [of sample_env sample_address_wallet ?kw sample_address_key, OF lvl _ _ _ _ keys]
  show ?thesis
    using lvl by (simp add: param_defs)
qed

section \<open>The address offset over successive calls\<close>

text \<open>
  Claim C5 asks that a successful call replaces the whole previous result. On the sample
  wallet a first call with offset 5 records the address offset 5; a second call with
  offset 0 returns, generates the addresses of the indices 0 and 1, and the dictionary
  still holds the address offset 5 of the first call.
\<close>

theorem Generate_stale_address_off:
  "fst (Generate sample_env (no_kwargs\<lparr>addr_num := Some 2, addr_off := Some 0\<rparr>) sample_generated_off) = Inr () \<and>
   m_wallet_data sample_generated_off (DATA_TYPE_TO_DICT_KEY ADDRESS_OFF) = Some (IntVal 5) \<and>
   m_wallet_data (snd (Generate sample_env (no_kwargs\<lparr>addr_num := Some 2, addr_off := Some 0\<rparr>) sample_generated_off))
     (DATA_TYPE_TO_DICT_KEY ADDRESS_OFF) = Some (IntVal 5) \<and>
   m_wallet_data (snd (Generate sample_env (no_kwargs\<lparr>addr_num := Some 2, addr_off := Some 0\<rparr>) sample_generated_off))
     (DATA_TYPE_TO_DICT_KEY ADDRESS)
     = Some (AddressesVal [(0, SampleBip ADDRESS_INDEX [44, 0, 0, 0, 0] False),
                           (1, SampleBip ADDRESS_INDEX [44, 0, 0, 0, 1] False)])"
  by code_simp

text \<open>
  Claim C9 asks that after a successful call the address offset is present exactly when
  the offset parameter was not zero. On the sample wallet (a master key), after a call
  with offset 5, a call with the default offset 0 returns and the address offset is
  present.
\<close>

theorem Generate_address_off_present_at_zero:
  "param_addr_off no_kwargs = 0 \<and>
   Level sample_env (m_bip_obj sample_generated_off) = MASTER \<and>
   fst (Generate sample_env no_kwargs sample_generated_off) = Inr () \<and>
   m_wallet_data (snd (Generate sample_env no_kwargs sample_generated_off))
     (DATA_TYPE_TO_DICT_KEY ADDRESS_OFF) \<noteq> None"
  by code_simp

section \<open>Watch-only wallets and construction\<close>

text \<open>
  Claim C8. \<open>IsWatchOnly\<close> answers whether the object the wallet was constructed from is
  public-only, after any sequence of \<open>Generate\<close> calls, returning or raising.
\<close>

theorem IsWatchOnly_after_calls:
  "IsWatchOnly env (Generate_calls env kws
      (HdWalletBip_init env wallet_name bip_obj mnemonic passphrase seed_bytes))
     = IsPublicOnly env bip_obj"
  by (simp add: IsWatchOnly_def Generate_calls_bip_obj init_bip_obj)

text \<open>
  Claim C10. After construction the passphrase is recorded exactly when the mnemonic is
  not empty (with an empty mnemonic the passphrase is dropped, whatever it is), and the
  mnemonic is recorded exactly when it is not empty.
\<close>

theorem InitData_mnemonic_passphrase:
  "m_wallet_data (HdWalletBip_init env wallet_name bip_obj mnemonic passphrase seed_bytes)
       (DATA_TYPE_TO_DICT_KEY PASSPHRASE)
     = (if mnemonic \<noteq> '''' then Some (StrVal passphrase) else None) \<and>
   m_wallet_data (HdWalletBip_init env wallet_name bip_obj mnemonic passphrase seed_bytes)
       (DATA_TYPE_TO_DICT_KEY MNEMONIC)
     = (if mnemonic \<noteq> '''' then Some (StrVal mnemonic) else None)"
  by (simp add: HdWalletBip_init_def HdWalletBase_init_def InitData_def bind_def SetData_def ret_def)

end
